theory Spec2Isabelle
  imports Main "HOL-Library.Sublist"
begin

section \<open>The config-entry HTTP endpoint (agent/config\_endpoint.go)\<close>

text \<open>
  The endpoint is modelled as it is written: each handler is a function from the
  request to the events it causes (writes to the response, backend calls) and the Go
  return pair. Everything the handlers call that is declared outside
  config\_endpoint.go (the query parsers of the HTTP server, the backend RPC, the kind
  registry \<open>structs.MakeConfigEntry\<close>, the mapstructure decoder, the JSON decoder) is a
  field of the environment record \<open>env\<close>, so that every theorem about a handler holds
  for whatever these collaborators do.
\<close>

subsection \<open>Go values\<close>

text \<open>
  An \<open>interface{}\<close> value as the JSON decoder produces it. \<open>JNumber\<close> carries the
  integral numbers only (Go holds them as float64; fractions play no role here).
\<close>

datatype jvalue =
    JString string
  | JNumber int
  | JBool bool
  | JNull
  | JObject "(string \<times> jvalue) list"
  | JArray "jvalue list"

text \<open>
  \<open>map[string]interface{}\<close>: an association list; the Go index expression
  \<open>raw[k]\<close> is \<open>map_of raw k\<close>, and a nil map is the empty list.
\<close>

type_synonym raw = "(string \<times> jvalue) list"

text \<open>
  Go errors. \<open>EOF\<close> is \<open>io.EOF\<close>, \<open>Errorf\<close> an error made by \<open>fmt.Errorf\<close> or handed
  back by a collaborator, known by its message. \<open>Error\<close> is the message that the
  verb \<open>%v\<close> prints.
\<close>

datatype error = EOF | Errorf string

fun Error :: "error \<Rightarrow> string" where
  "Error EOF = ''EOF''"
| "Error (Errorf msg) = msg"

text \<open>The error values a handler itself returns (declared in agent/http.go).\<close>

datatype handler_error =
    MethodNotAllowedError string "string list"
  | BadRequestError string
  | BackendError error

subsection \<open>strings.TrimPrefix and strings.SplitN\<close>

definition TrimPrefix :: "string \<Rightarrow> string \<Rightarrow> string" where
  "TrimPrefix s p = (if prefix p s then drop (length p) s else s)"

text \<open>\<open>strings.Index\<close>: the first position at which \<open>sep\<close> occurs; Go's -1 is \<open>None\<close>.\<close>

fun Index :: "string \<Rightarrow> string \<Rightarrow> nat option" where
  "Index [] sep = (if sep = [] then Some 0 else None)"
| "Index (c # cs) sep =
     (if prefix sep (c # cs) then Some 0 else map_option Suc (Index cs sep))"

text \<open>
  The loop of \<open>strings.genSplit\<close>: at most \<open>k\<close> cuts, the rest of the string is the last
  element.
\<close>

fun splitLoop :: "nat \<Rightarrow> string \<Rightarrow> string \<Rightarrow> string list" where
  "splitLoop 0 s sep = [s]"
| "splitLoop (Suc k) s sep =
     (case Index s sep of
        None \<Rightarrow> [s]
      | Some m \<Rightarrow> take m s # splitLoop k (drop (m + length sep) s) sep)"

text \<open>
  \<open>strings.SplitN s sep n\<close> for a non-empty separator and \<open>n \<ge> 0\<close> (both call sites
  pass \<open>"/"\<close> and \<open>2\<close>): \<open>n = 0\<close> gives no element, otherwise at most \<open>n\<close> elements.
\<close>

definition SplitN :: "string \<Rightarrow> string \<Rightarrow> nat \<Rightarrow> string list" where
  "SplitN s sep n = (if n = 0 then [] else splitLoop (n - 1) s sep)"

subsection \<open>Requests, envelopes, events\<close>

record request =
  Method :: string
  URL_Path :: string
  Body :: "string option"

text \<open>\<open>structs.ConfigEntryQuery\<close>, with the fields the handlers set.\<close>

record 'q ConfigEntryQuery =
  Kind :: string
  Name :: string
  Datacenter :: string
  QueryOptions :: 'q

datatype ConfigEntryOp = ConfigEntryUpsert | ConfigEntryDelete

text \<open>
  \<open>structs.ConfigEntryRequest\<close>; \<open>None\<close> is the zero value of \<open>Op\<close> and the nil
  \<open>Entry\<close>.
\<close>

record 'e ConfigEntryRequest =
  Op :: "ConfigEntryOp option"
  ReqDatacenter :: string
  Token :: string
  Entry :: "'e option"

datatype ('e, 'q) rpc_args =
    Query "'q ConfigEntryQuery"
  | Request "'e ConfigEntryRequest"

text \<open>What a handler does to the world, in order.\<close>

datatype resp_event = WriteHeader nat | Fprintf string

datatype ('e, 'q) event =
    Resp resp_event
  | Call string "('e, 'q) rpc_args"

definition StatusBadRequest :: nat where
  "StatusBadRequest = 400"

text \<open>The first component of a handler's return pair.\<close>

datatype 'r ret = nil | IndexedConfigEntries 'r | EmptyStruct

type_synonym ('e, 'q, 'r) outcome =
  "('e, 'q) event list \<times> 'r ret \<times> handler_error option"

subsection \<open>The decoder configuration\<close>

datatype DecodeHookFunc =
    StringToTimeDurationHookFunc
  | stringToReadableDurationFunc
  | ComposeDecodeHookFunc "DecodeHookFunc list"

record 'e DecoderConfig =
  DecodeHook :: DecodeHookFunc
  Result :: 'e

subsection \<open>The collaborators\<close>

text \<open>
  \<^item> \<open>parse\<close>: \<open>s.parse(resp, req, &dc, &opts)\<close>: what it writes to the response, whether
    it is done, and the two values it fills in;
  \<^item> \<open>parseDC\<close>, \<open>parseToken\<close>: the values they fill in;
  \<^item> \<open>RPC\<close>: \<open>s.agent.RPC(verb, &args, &reply)\<close>: the error, or the reply filled in;
  \<^item> \<open>MakeConfigEntry\<close>: the kind registry;
  \<^item> \<open>NewDecoder\<close>, \<open>Decode\<close>: mapstructure; \<open>Decode\<close> returns the entry that \<open>Result\<close>
    points to as it is after the call, and the error;
  \<^item> \<open>json_Decode\<close>: \<open>json.NewDecoder(body).Decode(&raw)\<close>;
  \<^item> \<open>decodeBody\<close>: the agent's \<open>decodeBody(req, &raw, nil)\<close>.
\<close>

record ('e, 'q, 'r) env =
  parse :: "request \<Rightarrow> resp_event list \<times> bool \<times> string \<times> 'q"
  parseDC :: "request \<Rightarrow> string"
  parseToken :: "request \<Rightarrow> string"
  RPC :: "string \<Rightarrow> ('e, 'q) rpc_args \<Rightarrow> error + 'r"
  MakeConfigEntry :: "string \<Rightarrow> string \<Rightarrow> error + 'e"
  NewDecoder :: "'e DecoderConfig \<Rightarrow> error option"
  Decode :: "'e DecoderConfig \<Rightarrow> raw \<Rightarrow> 'e \<times> error option"
  json_Decode :: "string \<Rightarrow> error + raw"
  decodeBody :: "request \<Rightarrow> error + raw"

subsection \<open>The decoders\<close>

definition decodeConfigEntry ::
  "('e, 'q, 'r) env \<Rightarrow> raw \<Rightarrow> 'e option \<times> error option" where
  "decodeConfigEntry s raw =
     (case (case map_of raw ''Kind'' of Some v \<Rightarrow> Some v | None \<Rightarrow> map_of raw ''kind'') of
        None \<Rightarrow>
          (None, Some (Errorf ''Payload does not contain a kind/Kind key at the top level''))
      | Some kindVal \<Rightarrow>
          (case kindVal of
             JString kindStr \<Rightarrow>
               (case MakeConfigEntry s kindStr '''' of
                  Inl err \<Rightarrow> (None, Some err)
                | Inr newEntry \<Rightarrow>
                    (let decodeConf =
                       \<lparr>DecodeHook = ComposeDecodeHookFunc
                          [StringToTimeDurationHookFunc, stringToReadableDurationFunc],
                        Result = newEntry\<rparr>
                     in case NewDecoder s decodeConf of
                          Some err \<Rightarrow> (None, Some err)
                        | None \<Rightarrow>
                            (case Decode s decodeConf raw of
                               (entry, err) \<Rightarrow> (Some entry, err))))
           | _ \<Rightarrow> (None, Some (Errorf ''Kind value in payload is not a string''))))"

definition decodeConfigBody ::
  "('e, 'q, 'r) env \<Rightarrow> request \<Rightarrow> 'e option \<times> error option" where
  "decodeConfigBody s req =
     (case Body req of
        None \<Rightarrow> (None, Some EOF)
      | Some body \<Rightarrow>
          (case json_Decode s body of
             Inl err \<Rightarrow> (None, Some err)
           | Inr raw \<Rightarrow>
               (case (case map_of raw ''Kind'' of
                        Some v \<Rightarrow> Some v
                      | None \<Rightarrow> map_of raw ''kind'') of
                  None \<Rightarrow>
                    (None,
                     Some (Errorf ''Payload does not contain a kind/Kind key at the top level''))
                | Some kindVal \<Rightarrow>
                    (case kindVal of
                       JString kindStr \<Rightarrow>
                         (case MakeConfigEntry s kindStr '''' of
                            Inl err \<Rightarrow> (None, Some err)
                          | Inr newEntry \<Rightarrow>
                              (let decodeConf =
                                 \<lparr>DecodeHook = ComposeDecodeHookFunc
                                    [StringToTimeDurationHookFunc,
                                     stringToReadableDurationFunc],
                                  Result = newEntry\<rparr>
                               in case NewDecoder s decodeConf of
                                    Some err \<Rightarrow> (None, Some err)
                                  | None \<Rightarrow>
                                      (case Decode s decodeConf raw of
                                         (entry, err) \<Rightarrow> (Some entry, err))))
                     | _ \<Rightarrow>
                         (None, Some (Errorf ''Kind value in payload is not a string''))))))"

subsection \<open>The handlers\<close>

definition configGet :: "('e, 'q, 'r) env \<Rightarrow> request \<Rightarrow> ('e, 'q, 'r) outcome" where
  "configGet s req =
     (case parse s req of
        (written, done, dc, opts) \<Rightarrow>
          if done then (map Resp written, nil, None)
          else
            (case SplitN (TrimPrefix (URL_Path req) ''/v1/config/'') ''/'' 2 of
               [kind, name] \<Rightarrow>
                 (let args = Query \<lparr>Kind = kind, Name = name, Datacenter = dc,
                                    QueryOptions = opts\<rparr>
                  in case RPC s ''ConfigEntry.Get'' args of
                       Inl err \<Rightarrow>
                         (map Resp written @ [Call ''ConfigEntry.Get'' args], nil,
                          Some (BackendError err))
                     | Inr reply \<Rightarrow>
                         (map Resp written @ [Call ''ConfigEntry.Get'' args],
                          IndexedConfigEntries reply, None))
             | [kind] \<Rightarrow>
                 (let args = Query \<lparr>Kind = kind, Name = '''', Datacenter = dc,
                                    QueryOptions = opts\<rparr>
                  in case RPC s ''ConfigEntry.List'' args of
                       Inl err \<Rightarrow>
                         (map Resp written @ [Call ''ConfigEntry.List'' args], nil,
                          Some (BackendError err))
                     | Inr reply \<Rightarrow>
                         (map Resp written @ [Call ''ConfigEntry.List'' args],
                          IndexedConfigEntries reply, None))
             | _ \<Rightarrow>
                 (map Resp written @
                    [Resp (WriteHeader StatusBadRequest),
                     Resp (Fprintf ''Must provide either a kind or both kind and name'')],
                  nil, None)))"

definition configDelete :: "('e, 'q, 'r) env \<Rightarrow> request \<Rightarrow> ('e, 'q, 'r) outcome" where
  "configDelete s req =
     (let dc = parseDC s req; token = parseToken s req
      in case SplitN (TrimPrefix (URL_Path req) ''/v1/config/'') ''/'' 2 of
           [kind, name] \<Rightarrow>
             (case MakeConfigEntry s kind name of
                Inl err \<Rightarrow>
                  ([Resp (WriteHeader StatusBadRequest), Resp (Fprintf (Error err))],
                   nil, None)
              | Inr entry \<Rightarrow>
                  (let args = Request \<lparr>Op = None, ReqDatacenter = dc, Token = token,
                                        Entry = Some entry\<rparr>
                   in case RPC s ''ConfigEntry.Delete'' args of
                        Inl err \<Rightarrow>
                          ([Call ''ConfigEntry.Delete'' args], nil, Some (BackendError err))
                      | Inr reply \<Rightarrow>
                          ([Call ''ConfigEntry.Delete'' args], EmptyStruct, None)))
         | _ \<Rightarrow>
             ([Resp (WriteHeader StatusBadRequest),
               Resp (Fprintf ''Must provide both a kind and name to delete'')],
              nil, None))"

definition Config :: "('e, 'q, 'r) env \<Rightarrow> request \<Rightarrow> ('e, 'q, 'r) outcome" where
  "Config s req =
     (if Method req = ''GET'' then configGet s req
      else if Method req = ''DELETE'' then configDelete s req
      else ([], nil, Some (MethodNotAllowedError (Method req) [''GET'', ''DELETE''])))"

definition ConfigApply :: "('e, 'q, 'r) env \<Rightarrow> request \<Rightarrow> ('e, 'q, 'r) outcome" where
  "ConfigApply s req =
     (let dc = parseDC s req; token = parseToken s req
      in case decodeBody s req of
           Inl err \<Rightarrow>
             ([], nil, Some (BadRequestError (''Request decoding failed: '' @ Error err)))
         | Inr raw \<Rightarrow>
             (case decodeConfigEntry s raw of
                (entry, None) \<Rightarrow>
                  (let args = Request \<lparr>Op = Some ConfigEntryUpsert, ReqDatacenter = dc,
                                        Token = token, Entry = entry\<rparr>
                   in case RPC s ''ConfigEntry.Apply'' args of
                        Inl err \<Rightarrow>
                          ([Call ''ConfigEntry.Apply'' args], nil, Some (BackendError err))
                      | Inr reply \<Rightarrow> ([Call ''ConfigEntry.Apply'' args], nil, None))
              | (entry, Some err) \<Rightarrow>
                  ([], nil,
                   Some (BadRequestError (''Request decoding failed: '' @ Error err)))))"

text \<open>The backend calls among the events of an outcome.\<close>

fun calls :: "('e, 'q) event list \<Rightarrow> (string \<times> ('e, 'q) rpc_args) list" where
  "calls [] = []"
| "calls (Resp w # es) = calls es"
| "calls (Call verb args # es) = (verb, args) # calls es"

section \<open>The collaborators declared outside config\_endpoint.go, from the specification\<close>

subsection \<open>Typed entries and the kind registry\<close>

text \<open>
  Modelled from the spec: the typed entries of \<open>structs\<close> (section 3: an entry has a
  kind and a name, and each kind has its own field set). A field holds a string, a
  boolean, a duration in nanoseconds or a structured object; the name is the field
  \<open>Name\<close>.
\<close>

datatype ftype = TString | TBool | TDuration | TObject

datatype fvalue =
    FString string
  | FBool bool
  | FDuration int
  | FObject "(string \<times> jvalue) list"

datatype typed_entry =
  TypedEntry (entry_kind: string) (entry_fields: "(string \<times> fvalue) list")

text \<open>
  Modelled from the spec: the zero value of a field (section 4.1: the registry
  returns a zero-valued entry), and the type that a value of a field has.
\<close>

fun zero :: "ftype \<Rightarrow> fvalue" where
  "zero TString = FString []"
| "zero TBool = FBool False"
| "zero TDuration = FDuration 0"
| "zero TObject = FObject []"

fun type_of :: "fvalue \<Rightarrow> ftype" where
  "type_of (FString s) = TString"
| "type_of (FBool b) = TBool"
| "type_of (FDuration d) = TDuration"
| "type_of (FObject kv) = TObject"

text \<open>
  Modelled from the spec: the table of the kind registry (section 2: a pure lookup
  table from a kind to the shape of its entries). It lists, for each kind, the fields
  of its entries beside \<open>Name\<close>.
\<close>

type_synonym registry = "(string \<times> (string \<times> ftype) list) list"

text \<open>
  Modelled from the spec: the error values of sections 4.1 and 4.2, which the
  spec names without giving their text.
\<close>

definition UnknownKind :: "string \<Rightarrow> error" where
  "UnknownKind kind = Errorf (''UnknownKind: '' @ kind)"

definition DecodeMismatch :: "string \<Rightarrow> string \<Rightarrow> string \<Rightarrow> error" where
  "DecodeMismatch key expected actual =
     Errorf (''DecodeMismatch: '' @ key @ '': expected '' @ expected @ '', got '' @ actual)"

text \<open>
  Modelled from the spec: \<open>structs.MakeConfigEntry\<close> (section 4.1,
  \<open>resolve(kindIdentifier, name)\<close>): a fresh zero-valued entry of the kind with its
  name set when the kind is known (an exact match of the string), \<open>UnknownKind\<close>
  otherwise.
\<close>

definition resolve :: "registry \<Rightarrow> string \<Rightarrow> string \<Rightarrow> error + typed_entry" where
  "resolve reg kind name =
     (case map_of reg kind of
        None \<Rightarrow> Inl (UnknownKind kind)
      | Some shape \<Rightarrow>
          Inr (TypedEntry kind
                 ((''Name'', FString name) # map (\<lambda>(f, t). (f, zero t)) shape)))"

subsection \<open>Durations\<close>

text \<open>
  Modelled from the spec: the digits of the duration grammar (section 4.2) and
  the number that a string of digits denotes.
\<close>

definition is_digit :: "char \<Rightarrow> bool" where
  "is_digit c = (c \<in> set ''0123456789'')"

definition digit_val :: "char \<Rightarrow> int" where
  "digit_val c =
     (case map_of (zip ''0123456789'' [0, 1, 2, 3, 4, 5, 6, 7, 8, 9]) c of
        Some d \<Rightarrow> d
      | None \<Rightarrow> 0)"

definition digits_val :: "string \<Rightarrow> int" where
  "digits_val ds = foldl (\<lambda>a c. 10 * a + digit_val c) 0 ds"

text \<open>
  Modelled from the spec: the units of the duration grammar (section 4.2: ns,
  us or its spelling with the micro sign, ms, s, m, h), in nanoseconds. The micro sign
  is the two bytes C2 B5 of its UTF-8 encoding.
\<close>

definition unit_ns :: "string \<Rightarrow> int option" where
  "unit_ns u =
     map_of
       [(''ns'', 1),
        (''us'', 1000),
        ([CHR 0xC2, CHR 0xB5, CHR ''s''], 1000),
        (''ms'', 1000000),
        (''s'', 1000000000),
        (''m'', 60 * 1000000000),
        (''h'', 3600 * 1000000000)] u"

text \<open>
  Modelled from the spec: the duration grammar (section 4.2: digits and a unit
  suffix, repeated, as in "10s" and "2h30m"); the value is the sum of the terms.
\<close>

function parse_terms :: "string \<Rightarrow> int option" where
  "parse_terms s =
     (if s = [] then Some 0
      else if takeWhile is_digit s = [] then None
      else
        (case unit_ns (takeWhile (\<lambda>c. \<not> is_digit c) (dropWhile is_digit s)) of
           None \<Rightarrow> None
         | Some f \<Rightarrow>
             (case parse_terms (dropWhile (\<lambda>c. \<not> is_digit c) (dropWhile is_digit s)) of
                None \<Rightarrow> None
              | Some t \<Rightarrow> Some (digits_val (takeWhile is_digit s) * f + t))))"
  by pat_completeness auto
termination
proof (relation "measure length")
  show "wf (measure length)" by simp
next
  fix s :: string and f :: int
  assume "takeWhile is_digit s \<noteq> []"
  then have "length (dropWhile is_digit s) < length s"
    by (cases s) (auto intro: le_imp_less_Suc length_dropWhile_le split: if_splits)
  moreover have "length (dropWhile (\<lambda>c. \<not> is_digit c) (dropWhile is_digit s))
      \<le> length (dropWhile is_digit s)"
    by (rule length_dropWhile_le)
  ultimately show
    "(dropWhile (\<lambda>c. \<not> is_digit c) (dropWhile is_digit s), s) \<in> measure length"
    by simp
qed

declare parse_terms.simps [simp del]

definition ParseDuration :: "string \<Rightarrow> int option" where
  "ParseDuration s = (if s = [] then None else parse_terms s)"

subsection \<open>Coercion of the fields\<close>

text \<open>
  Modelled from the spec: the case-insensitive match of a key and a field name
  (section 4.2, step 3), by folding the ASCII letters.
\<close>

definition lower :: "char \<Rightarrow> char" where
  "lower c =
     (case map_of (zip ''ABCDEFGHIJKLMNOPQRSTUVWXYZ'' ''abcdefghijklmnopqrstuvwxyz'') c of
        Some d \<Rightarrow> d
      | None \<Rightarrow> c)"

definition EqualFold :: "string \<Rightarrow> string \<Rightarrow> bool" where
  "EqualFold s t = (map lower s = map lower t)"

text \<open>
  Modelled from the spec: the descriptions of the expected and the actual type that
  a \<open>DecodeMismatch\<close> carries (section 4.2, step 3).
\<close>

fun type_name :: "ftype \<Rightarrow> string" where
  "type_name TString = ''string''"
| "type_name TBool = ''bool''"
| "type_name TDuration = ''duration''"
| "type_name TObject = ''object''"

fun value_name :: "jvalue \<Rightarrow> string" where
  "value_name (JString s) = ''string''"
| "value_name (JNumber n) = ''number''"
| "value_name (JBool b) = ''bool''"
| "value_name JNull = ''null''"
| "value_name (JObject kv) = ''object''"
| "value_name (JArray vs) = ''array''"

text \<open>
  Modelled from the spec: the conversion of one value to the type of its field
  (section 4.2, step 3): a duration field takes a number verbatim as nanoseconds or
  a string of the duration grammar; any other pairing of a field and a value of
  another type is a \<open>DecodeMismatch\<close> carrying the key and the two types.
\<close>

fun coerce_value :: "string \<Rightarrow> ftype \<Rightarrow> jvalue \<Rightarrow> error + fvalue" where
  "coerce_value key TString (JString s) = Inr (FString s)"
| "coerce_value key TBool (JBool b) = Inr (FBool b)"
| "coerce_value key TDuration (JNumber n) = Inr (FDuration n)"
| "coerce_value key TDuration (JString s) =
     (case ParseDuration s of
        None \<Rightarrow> Inl (DecodeMismatch key ''duration'' ''string'')
      | Some d \<Rightarrow> Inr (FDuration d))"
| "coerce_value key TObject (JObject kv) = Inr (FObject kv)"
| "coerce_value key t v = Inl (DecodeMismatch key (type_name t) (value_name v))"

text \<open>
  Modelled from the spec: the coercion of the mapping onto the fields (section
  4.2, steps 3 and 4): each field takes the value of the key that matches its name
  case-insensitively, a field without such a key keeps its value, a key without a
  field is ignored, and the first failure ends the decoding.
\<close>

fun coerce_fields :: "raw \<Rightarrow> (string \<times> fvalue) list \<Rightarrow> error + (string \<times> fvalue) list" where
  "coerce_fields raw [] = Inr []"
| "coerce_fields raw ((f, cur) # fs) =
     (case (case find (\<lambda>(k, v). EqualFold k f) raw of
              None \<Rightarrow> Inr cur
            | Some (k, v) \<Rightarrow> coerce_value k (type_of cur) v) of
        Inl err \<Rightarrow> Inl err
      | Inr x \<Rightarrow>
          (case coerce_fields raw fs of
             Inl err \<Rightarrow> Inl err
           | Inr fs' \<Rightarrow> Inr ((f, x) # fs')))"

text \<open>
  Modelled from the spec: the keys that remain for the coercion once the
  discriminator is taken (section 4.2, steps 1 and 3): all but \<open>Kind\<close> when it is
  present, all but \<open>kind\<close> otherwise.
\<close>

definition remaining :: "raw \<Rightarrow> raw" where
  "remaining raw =
     (case map_of raw ''Kind'' of
        Some d \<Rightarrow> filter (\<lambda>(k, v). k \<noteq> ''Kind'') raw
      | None \<Rightarrow> filter (\<lambda>(k, v). k \<noteq> ''kind'') raw)"

text \<open>
  Modelled from the spec: \<open>Decode\<close> of the mapstructure decoder (section 4.2):
  the entry with its fields coerced from the remaining keys, or the entry as it was
  and the first error.
\<close>

definition spec_Decode :: "typed_entry DecoderConfig \<Rightarrow> raw \<Rightarrow> typed_entry \<times> error option" where
  "spec_Decode conf raw =
     (case coerce_fields (remaining raw) (entry_fields (Result conf)) of
        Inl err \<Rightarrow> (Result conf, Some err)
      | Inr fs \<Rightarrow> (TypedEntry (entry_kind (Result conf)) fs, None))"

text \<open>
  Modelled from the spec: an environment whose kind registry and decoder are the
  ones of sections 4.1 and 4.2 above, over a given table. Its other collaborators are
  the simplest ones: a decoder can always be built; the query parsers accept the
  request for the datacenter \<open>dc1\<close>; the backend acknowledges every call with an empty
  collection; a body is the empty reader or holds the empty JSON object.
\<close>

definition spec_env :: "registry \<Rightarrow> (typed_entry, unit, typed_entry list) env" where
  "spec_env reg =
     \<lparr>parse = (\<lambda>req. ([], False, ''dc1'', ())),
      parseDC = (\<lambda>req. ''dc1''),
      parseToken = (\<lambda>req. []),
      RPC = (\<lambda>verb args. Inr []),
      MakeConfigEntry = resolve reg,
      NewDecoder = (\<lambda>conf. None),
      Decode = spec_Decode,
      json_Decode = (\<lambda>body. if body = [] then Inl EOF else Inr []),
      decodeBody = (\<lambda>req. case Body req of
                             None \<Rightarrow> Inl EOF
                           | Some body \<Rightarrow> if body = [] then Inl EOF else Inr [])\<rparr>"

text \<open>
  Modelled from the spec: a table with the one kind \<open>web\<close> of the examples of
  section 8, given a string field and a duration field, for the evaluations below.
\<close>

definition web_registry :: registry where
  "web_registry = [(''web'', [(''Protocol'', TString), (''Timeout'', TDuration)])]"

section \<open>Properties\<close>

subsection \<open>Splitting the path\<close>

lemma Index_char_None: "c \<notin> set s \<Longrightarrow> Index s [c] = None"
  by (induction s) auto

lemma Index_char_Some: "c \<notin> set k \<Longrightarrow> Index (k @ c # n) [c] = Some (length k)"
  by (induction k) auto

lemma SplitN_2: 
  "SplitN s sep 2 =
     (case Index s sep of None \<Rightarrow> [s] | Some m \<Rightarrow> [take m s, drop (m + length sep) s])"
  by (simp add: SplitN_def numeral_2_eq_2 split: option.split)

lemma SplitN_2_shape: "(\<exists>kind. SplitN s sep 2 = [kind]) \<or> (\<exists>kind name. SplitN s sep 2 = [kind, name])"
  by (simp add: SplitN_2 split: option.split)

lemma SplitN_one_segment: "CHR ''/'' \<notin> set kind \<Longrightarrow> SplitN kind ''/'' 2 = [kind]"
  by (simp add: SplitN_2 Index_char_None)

lemma SplitN_two_segments:
  "CHR ''/'' \<notin> set kind \<Longrightarrow> SplitN (kind @ ''/'' @ name) ''/'' 2 = [kind, name]"
  using Index_char_Some [of "CHR ''/''" kind name] by (simp add: SplitN_2)

lemma TrimPrefix_append: "TrimPrefix (p @ s) p = s"
  by (simp add: TrimPrefix_def)

text \<open>The definitions that an evaluation at a concrete input unfolds.\<close>

lemmas eval_defs = spec_env_def web_registry_def resolve_def spec_Decode_def remaining_def
  EqualFold_def lower_def ParseDuration_def parse_terms.simps is_digit_def unit_ns_def
  digits_val_def digit_val_def UnknownKind_def DecodeMismatch_def StatusBadRequest_def
  SplitN_def TrimPrefix_def

subsection \<open>Method dispatch\<close>

text \<open>
  C6: \<open>Config\<close> hands a GET to \<open>configGet\<close> and a DELETE to \<open>configDelete\<close>; for
  every other verb it causes no event (no write to the response, no backend call) and
  returns the error \<open>MethodNotAllowedError\<close> with the verb and the allowed verbs
  GET, DELETE, in this order.
\<close>

theorem Config_method_dispatch:
  "(Method req = ''GET'' \<longrightarrow> Config s req = configGet s req)
   \<and> (Method req = ''DELETE'' \<longrightarrow> Config s req = configDelete s req)
   \<and> (Method req \<noteq> ''GET'' \<and> Method req \<noteq> ''DELETE'' \<longrightarrow>
        Config s req = ([], nil, Some (MethodNotAllowedError (Method req) [''GET'', ''DELETE''])))"
  by (simp add: Config_def)

text \<open>
  C6 at the verbs PUT, GET and DELETE.
\<close>

theorem Config_method_dispatch_witness:
  "Config (spec_env web_registry) \<lparr>Method = ''PUT'', URL_Path = ''/v1/config/web'', Body = None\<rparr> =
     ([], nil, Some (MethodNotAllowedError ''PUT'' [''GET'', ''DELETE'']))
   \<and> Config (spec_env web_registry)
         \<lparr>Method = ''GET'', URL_Path = ''/v1/config/web'', Body = None\<rparr> =
       configGet (spec_env web_registry)
         \<lparr>Method = ''GET'', URL_Path = ''/v1/config/web'', Body = None\<rparr>
   \<and> Config (spec_env web_registry)
         \<lparr>Method = ''DELETE'', URL_Path = ''/v1/config/web/api'', Body = None\<rparr> =
       configDelete (spec_env web_registry)
         \<lparr>Method = ''DELETE'', URL_Path = ''/v1/config/web/api'', Body = None\<rparr>"
  using Config_method_dispatch
          [of "\<lparr>Method = ''PUT'', URL_Path = ''/v1/config/web'', Body = None\<rparr>"
              "spec_env web_registry"]
        Config_method_dispatch
          [of "\<lparr>Method = ''GET'', URL_Path = ''/v1/config/web'', Body = None\<rparr>"
              "spec_env web_registry"]
        Config_method_dispatch
          [of "\<lparr>Method = ''DELETE'', URL_Path = ''/v1/config/web/api'', Body = None\<rparr>"
              "spec_env web_registry"]
  by simp

subsection \<open>Get\<close>

text \<open>
  With no \<open>done\<close> from the query parser, \<open>configGet\<close> issues \<open>ConfigEntry.Get\<close> for two
  segments and \<open>ConfigEntry.List\<close> for one; \<open>SplitN\<close> with the limit 2 never yields
  another number of segments, so the branch that answers \<open>Must provide either a kind
  or both kind and name\<close> is never taken.
\<close>

lemma configGet_dispatch:
  assumes "parse s req = (written, False, dc, opts)"
  shows "SplitN (TrimPrefix (URL_Path req) ''/v1/config/'') ''/'' 2 = [kind, name] \<Longrightarrow>
           fst (configGet s req) =
             map Resp written @
             [Call ''ConfigEntry.Get''
                (Query \<lparr>Kind = kind, Name = name, Datacenter = dc, QueryOptions = opts\<rparr>)]"
    and "SplitN (TrimPrefix (URL_Path req) ''/v1/config/'') ''/'' 2 = [kind] \<Longrightarrow>
           fst (configGet s req) =
             map Resp written @
             [Call ''ConfigEntry.List''
                (Query \<lparr>Kind = kind, Name = [], Datacenter = dc, QueryOptions = opts\<rparr>)]"
  using assms by (auto simp: configGet_def Let_def split: sum.splits)

lemma configGet_always_calls:
  assumes "parse s req = (written, False, dc, opts)"
  shows "\<exists>verb args. fst (configGet s req) = map Resp written @ [Call verb args]"
  using assms SplitN_2_shape [of "TrimPrefix (URL_Path req) ''/v1/config/''" "''/''"]
  by (auto simp: configGet_def Let_def split: sum.splits)

text \<open>
  C1 (the code at the input where it leaves the claim): the claim has the empty path
  suffix answered with a bad request and no backend call. \<open>SplitN\<close> of the empty
  string is the one-element list of the empty string, so \<open>configGet\<close> on the path
  \<open>/v1/config/\<close> issues \<open>ConfigEntry.List\<close> with the empty kind.
\<close>

theorem configGet_empty_path_lists:
  "SplitN (TrimPrefix ''/v1/config/'' ''/v1/config/'') ''/'' 2 = [[]]
   \<and> configGet (spec_env web_registry)
         \<lparr>Method = ''GET'', URL_Path = ''/v1/config/'', Body = None\<rparr> =
       ([Call ''ConfigEntry.List''
           (Query \<lparr>Kind = [], Name = [], Datacenter = ''dc1'', QueryOptions = ()\<rparr>)],
        IndexedConfigEntries [], None)"
  by (simp add: configGet_def spec_env_def SplitN_def TrimPrefix_def)

subsection \<open>Delete\<close>

text \<open>
  C2, as amended: when the path suffix does not split into two segments,
  \<open>configDelete\<close> answers with status 400 and \<open>Must provide both a kind and name to
  delete\<close> and issues no backend call; with two segments (kind, name) that the kind
  registry accepts it issues \<open>ConfigEntry.Delete\<close> with the entry the registry made for
  them, and returns the empty reply or the backend's error; with two segments that the
  registry refuses it answers with status 400 and the registry's error and issues no
  backend call.
\<close>

theorem configDelete_dispatch:
  assumes "segs = SplitN (TrimPrefix (URL_Path req) ''/v1/config/'') ''/'' 2"
  shows
  "((\<forall>kind name. segs \<noteq> [kind, name]) \<longrightarrow>
      configDelete s req =
        ([Resp (WriteHeader StatusBadRequest),
          Resp (Fprintf ''Must provide both a kind and name to delete'')], nil, None))
   \<and> (segs = [kind, name] \<and> MakeConfigEntry s kind name = Inr entry \<longrightarrow>
        fst (configDelete s req) =
          [Call ''ConfigEntry.Delete''
             (Request \<lparr>Op = None, ReqDatacenter = parseDC s req, Token = parseToken s req,
                       Entry = Some entry\<rparr>)]
        \<and> snd (configDelete s req) =
            (case RPC s ''ConfigEntry.Delete''
                    (Request \<lparr>Op = None, ReqDatacenter = parseDC s req,
                              Token = parseToken s req, Entry = Some entry\<rparr>) of
               Inl err \<Rightarrow> (nil, Some (BackendError err))
             | Inr reply \<Rightarrow> (EmptyStruct, None)))
   \<and> (segs = [kind, name] \<and> MakeConfigEntry s kind name = Inl err \<longrightarrow>
        configDelete s req =
          ([Resp (WriteHeader StatusBadRequest), Resp (Fprintf (Error err))], nil, None))"
proof -
  have shape: "(\<exists>k. segs = [k]) \<or> (\<exists>k n. segs = [k, n])"
    unfolding assms by (rule SplitN_2_shape)
  show ?thesis
    using shape assms [symmetric]
    by (auto simp: configDelete_def Let_def split: sum.splits)
qed

text \<open>
  C2, the claim as stated fails: the path suffix \<open>bogus/api\<close> has two segments, and no
  \<open>ConfigEntry.Delete\<close> is issued, since the registry does not know the kind.
\<close>

theorem configDelete_unknown_kind_counterexample:
  "SplitN (TrimPrefix ''/v1/config/bogus/api'' ''/v1/config/'') ''/'' 2 = [''bogus'', ''api'']
   \<and> configDelete (spec_env web_registry)
         \<lparr>Method = ''DELETE'', URL_Path = ''/v1/config/bogus/api'', Body = None\<rparr> =
       ([Resp (WriteHeader 400), Resp (Fprintf ''UnknownKind: bogus'')], nil, None)
   \<and> calls (fst (configDelete (spec_env web_registry)
         \<lparr>Method = ''DELETE'', URL_Path = ''/v1/config/bogus/api'', Body = None\<rparr>)) = []"
  by (simp add: configDelete_def eval_defs)

text \<open>
  C2, the amended statement at the paths \<open>web\<close>, \<open>web/api\<close> and \<open>bogus/api\<close>.
\<close>

theorem configDelete_dispatch_witness:
  "SplitN (TrimPrefix ''/v1/config/web'' ''/v1/config/'') ''/'' 2 = [''web'']
   \<and> configDelete (spec_env web_registry)
         \<lparr>Method = ''DELETE'', URL_Path = ''/v1/config/web'', Body = None\<rparr> =
       ([Resp (WriteHeader StatusBadRequest),
         Resp (Fprintf ''Must provide both a kind and name to delete'')], nil, None)
   \<and> SplitN (TrimPrefix ''/v1/config/web/api'' ''/v1/config/'') ''/'' 2 = [''web'', ''api'']
   \<and> MakeConfigEntry (spec_env web_registry) ''web'' ''api'' =
       Inr (TypedEntry ''web''
              [(''Name'', FString ''api''), (''Protocol'', FString []),
               (''Timeout'', FDuration 0)])
   \<and> fst (configDelete (spec_env web_registry)
         \<lparr>Method = ''DELETE'', URL_Path = ''/v1/config/web/api'', Body = None\<rparr>) =
       [Call ''ConfigEntry.Delete''
          (Request \<lparr>Op = None, ReqDatacenter = ''dc1'', Token = [],
                    Entry = Some (TypedEntry ''web''
                      [(''Name'', FString ''api''), (''Protocol'', FString []),
                       (''Timeout'', FDuration 0)])\<rparr>)]
   \<and> MakeConfigEntry (spec_env web_registry) ''bogus'' ''api'' = Inl (UnknownKind ''bogus'')
   \<and> configDelete (spec_env web_registry)
         \<lparr>Method = ''DELETE'', URL_Path = ''/v1/config/bogus/api'', Body = None\<rparr> =
       ([Resp (WriteHeader StatusBadRequest), Resp (Fprintf (Error (UnknownKind ''bogus'')))],
        nil, None)"
proof -
  let ?s = "spec_env web_registry"
  let ?r1 = "\<lparr>Method = ''DELETE'', URL_Path = ''/v1/config/web'', Body = None\<rparr>"
  let ?r2 = "\<lparr>Method = ''DELETE'', URL_Path = ''/v1/config/web/api'', Body = None\<rparr>"
  let ?r3 = "\<lparr>Method = ''DELETE'', URL_Path = ''/v1/config/bogus/api'', Body = None\<rparr>"
  have s1: "SplitN (TrimPrefix (URL_Path ?r1) ''/v1/config/'') ''/'' 2 = [''web'']"
    by (simp add: SplitN_def TrimPrefix_def)
  have s2: "SplitN (TrimPrefix (URL_Path ?r2) ''/v1/config/'') ''/'' 2 = [''web'', ''api'']"
    by (simp add: SplitN_def TrimPrefix_def)
  have s3: "SplitN (TrimPrefix (URL_Path ?r3) ''/v1/config/'') ''/'' 2 = [''bogus'', ''api'']"
    by (simp add: SplitN_def TrimPrefix_def)
  have m2: "MakeConfigEntry ?s ''web'' ''api'' =
       Inr (TypedEntry ''web''
              [(''Name'', FString ''api''), (''Protocol'', FString []),
               (''Timeout'', FDuration 0)])"
    by (simp add: spec_env_def web_registry_def resolve_def)
  have m3: "MakeConfigEntry ?s ''bogus'' ''api'' = Inl (UnknownKind ''bogus'')"
    by (simp add: spec_env_def web_registry_def resolve_def)
  have p: "parseDC ?s ?r2 = ''dc1''" "parseToken ?s ?r2 = []"
    by (simp_all add: spec_env_def)
  from configDelete_dispatch [where s = "?s" and req = "?r1", OF s1 [symmetric]]
       configDelete_dispatch [where s = "?s" and req = "?r2" and kind = "''web''"
                                and name = "''api''", OF s2 [symmetric]]
       configDelete_dispatch [where s = "?s" and req = "?r3" and kind = "''bogus''"
                                and name = "''api''" and err = "UnknownKind ''bogus''",
                              OF s3 [symmetric]]
       s1 s2 s3 m2 m3 p
  show ?thesis by simp
qed

subsection \<open>The discriminator\<close>

text \<open>
  C4: a mapping with neither \<open>Kind\<close> nor \<open>kind\<close> makes \<open>decodeConfigEntry\<close> return the
  error \<open>Payload does not contain a kind/Kind key at the top level\<close>; a mapping whose
  discriminator (the value under \<open>Kind\<close>, or under \<open>kind\<close> when \<open>Kind\<close> is absent) is
  not a string makes it return \<open>Kind value in payload is not a string\<close>. The function
  is total: every mapping has a result, none is a panic.
\<close>

theorem decodeConfigEntry_kind_errors:
  "(map_of raw ''Kind'' = None \<and> map_of raw ''kind'' = None \<longrightarrow>
      decodeConfigEntry s raw =
        (None, Some (Errorf ''Payload does not contain a kind/Kind key at the top level'')))
   \<and> ((map_of raw ''Kind'' = Some v \<or> map_of raw ''Kind'' = None \<and> map_of raw ''kind'' = Some v)
        \<and> (\<forall>str. v \<noteq> JString str) \<longrightarrow>
      decodeConfigEntry s raw =
        (None, Some (Errorf ''Kind value in payload is not a string'')))"
  by (cases v) (auto simp: decodeConfigEntry_def)

text \<open>
  C4 at a mapping with a name only, and at one whose \<open>Kind\<close> is the number 5.
\<close>

theorem decodeConfigEntry_kind_errors_witness:
  "map_of [(''Name'', JString ''api'')] ''Kind'' = None
   \<and> map_of [(''Name'', JString ''api'')] ''kind'' = None
   \<and> decodeConfigEntry (spec_env web_registry) [(''Name'', JString ''api'')] =
        (None, Some (Errorf ''Payload does not contain a kind/Kind key at the top level''))
   \<and> map_of [(''Kind'', JNumber 5), (''kind'', JString ''web'')] ''Kind'' = Some (JNumber 5)
   \<and> decodeConfigEntry (spec_env web_registry) [(''Kind'', JNumber 5), (''kind'', JString ''web'')] =
        (None, Some (Errorf ''Kind value in payload is not a string''))"
  using decodeConfigEntry_kind_errors
          [of "[(''Name'', JString ''api'')]" "spec_env web_registry" JNull]
        decodeConfigEntry_kind_errors
          [of "[(''Kind'', JNumber 5), (''kind'', JString ''web'')]" "spec_env web_registry"
              "JNumber 5"]
  by simp

text \<open>
  C5: when the discriminator is a string that the kind registry refuses,
  \<open>decodeConfigEntry\<close> returns the registry's error unchanged and no entry, and
  \<open>ConfigApply\<close> on a body that decodes to such a mapping returns the error
  \<open>BadRequestError\<close> whose reason is \<open>Request decoding failed:\<close> followed by the text of
  that error, and causes no event.
\<close>

theorem unknown_kind_is_bad_request:
  "(case map_of raw ''Kind'' of Some v \<Rightarrow> Some v | None \<Rightarrow> map_of raw ''kind'') =
      Some (JString kindStr)
   \<and> MakeConfigEntry s kindStr [] = Inl err \<longrightarrow>
     decodeConfigEntry s raw = (None, Some err)
     \<and> (decodeBody s req = Inr raw \<longrightarrow>
          ConfigApply s req =
            ([], nil, Some (BadRequestError (''Request decoding failed: '' @ Error err))))"
  by (auto simp: decodeConfigEntry_def ConfigApply_def)

text \<open>
  C5 at a mapping of the kind \<open>bogus\<close>, which the registry of the evaluations does
  not know.
\<close>

theorem unknown_kind_is_bad_request_witness:
  "map_of [(''Kind'', JString ''bogus'')] ''Kind'' = Some (JString ''bogus'')
   \<and> MakeConfigEntry (spec_env web_registry) ''bogus'' [] = Inl (UnknownKind ''bogus'')
   \<and> decodeConfigEntry
         ((spec_env web_registry)\<lparr>decodeBody := \<lambda>req. Inr [(''Kind'', JString ''bogus'')]\<rparr>)
         [(''Kind'', JString ''bogus'')] =
       (None, Some (UnknownKind ''bogus''))
   \<and> ConfigApply
         ((spec_env web_registry)\<lparr>decodeBody := \<lambda>req. Inr [(''Kind'', JString ''bogus'')]\<rparr>)
         \<lparr>Method = ''PUT'', URL_Path = ''/v1/config'', Body = Some ''body''\<rparr> =
       ([], nil, Some (BadRequestError ''Request decoding failed: UnknownKind: bogus''))"
proof -
  let ?s = "(spec_env web_registry)\<lparr>decodeBody := \<lambda>req. Inr [(''Kind'', JString ''bogus'')]\<rparr>"
  have m: "MakeConfigEntry ?s ''bogus'' [] = Inl (UnknownKind ''bogus'')"
    "MakeConfigEntry (spec_env web_registry) ''bogus'' [] = Inl (UnknownKind ''bogus'')"
    by (simp_all add: spec_env_def web_registry_def resolve_def)
  have b: "decodeBody ?s \<lparr>Method = ''PUT'', URL_Path = ''/v1/config'', Body = Some ''body''\<rparr> =
      Inr [(''Kind'', JString ''bogus'')]"
    by simp
  from unknown_kind_is_bad_request
         [where raw = "[(''Kind'', JString ''bogus'')]" and kindStr = "''bogus''" and s = "?s"
            and err = "UnknownKind ''bogus''"
            and req = "\<lparr>Method = ''PUT'', URL_Path = ''/v1/config'', Body = Some ''body''\<rparr>"]
       m b
  show ?thesis by (simp add: UnknownKind_def)
qed

subsection \<open>Decoding into a registered kind\<close>

text \<open>
  What \<open>coerce_fields\<close> returns, field by field; renaming the key \<open>kind\<close> to \<open>Kind\<close>
  in a mapping that has no \<open>Kind\<close> changes neither the discriminator nor the remaining
  keys; \<open>decodeConfigEntry\<close> in the environment of the specification.
\<close>

lemma coerce_fields_fieldwise:
  "coerce_fields raw flds = Inr fs \<Longrightarrow>
   list_all2
     (\<lambda>(f, cur) (f', x). f' = f \<and>
        (case find (\<lambda>(k, v). EqualFold k f) raw of
           None \<Rightarrow> x = cur
         | Some (k, v) \<Rightarrow> coerce_value k (type_of cur) v = Inr x))
     flds fs"
proof (induction flds arbitrary: fs)
  case Nil
  then show ?case by simp
next
  case (Cons p flds)
  obtain f cur where p: "p = (f, cur)" by (cases p)
  from Cons.prems p obtain x fs' where
    x: "(case find (\<lambda>(k, v). EqualFold k f) raw of
           None \<Rightarrow> Inr cur
         | Some (k, v) \<Rightarrow> coerce_value k (type_of cur) v) = Inr x"
    and rest: "coerce_fields raw flds = Inr fs'"
    and fs: "fs = (f, x) # fs'"
    by (auto split: sum.splits)
  from x have "case find (\<lambda>(k, v). EqualFold k f) raw of
                 None \<Rightarrow> x = cur
               | Some (k, v) \<Rightarrow> coerce_value k (type_of cur) v = Inr x"
    by (auto split: option.splits)
  with Cons.IH [OF rest] p fs show ?case by simp
qed

lemma type_of_zero: "type_of (zero t) = t"
  by (cases t) simp_all

lemma map_of_rename_Kind:
  "''Kind'' \<notin> fst ` set raw \<Longrightarrow>
   map_of (map (\<lambda>(k, x). (if k = ''kind'' then ''Kind'' else k, x)) raw) ''Kind'' =
     map_of raw ''kind''"
  by (induction raw) auto

lemma map_of_rename_kind:
  "map_of (map (\<lambda>(k, x). (if k = ''kind'' then ''Kind'' else k, x)) raw) ''kind'' = None"
  by (induction raw) (auto split: if_splits)

lemma filter_rename_Kind:
  "''Kind'' \<notin> fst ` set raw \<Longrightarrow>
   filter (\<lambda>(k, v). k \<noteq> ''Kind'') (map (\<lambda>(k, x). (if k = ''kind'' then ''Kind'' else k, x)) raw) =
     filter (\<lambda>(k, v). k \<noteq> ''kind'') raw"
  by (induction raw) auto

lemma rename_absent:
  "''kind'' \<notin> fst ` set raw \<Longrightarrow>
   map (\<lambda>(k, x). (if k = ''kind'' then ''Kind'' else k, x)) raw = raw"
  by (induction raw) auto

lemma rename_kind_same_discriminator:
  assumes "map_of raw ''Kind'' = None"
  shows "(case map_of (map (\<lambda>(k, x). (if k = ''kind'' then ''Kind'' else k, x)) raw) ''Kind'' of
            Some v \<Rightarrow> Some v
          | None \<Rightarrow> map_of (map (\<lambda>(k, x). (if k = ''kind'' then ''Kind'' else k, x)) raw) ''kind'') =
         (case map_of raw ''Kind'' of Some v \<Rightarrow> Some v | None \<Rightarrow> map_of raw ''kind'')"
proof -
  from assms have "''Kind'' \<notin> fst ` set raw"
    by (simp add: map_of_eq_None_iff)
  then show ?thesis
    using assms by (simp add: map_of_rename_Kind map_of_rename_kind split: option.split)
qed

lemma rename_kind_same_remaining:
  assumes "map_of raw ''Kind'' = None"
  shows "remaining (map (\<lambda>(k, x). (if k = ''kind'' then ''Kind'' else k, x)) raw) = remaining raw"
proof -
  from assms have absent: "''Kind'' \<notin> fst ` set raw"
    by (simp add: map_of_eq_None_iff)
  show ?thesis
  proof (cases "map_of raw ''kind''")
    case None
    then have "''kind'' \<notin> fst ` set raw"
      by (simp add: map_of_eq_None_iff)
    then show ?thesis by (simp add: rename_absent)
  next
    case (Some d)
    with absent assms show ?thesis
      by (simp add: remaining_def map_of_rename_Kind filter_rename_Kind)
  qed
qed

lemma decodeConfigEntry_spec_env:
  "decodeConfigEntry (spec_env reg) raw =
     (case (case map_of raw ''Kind'' of Some v \<Rightarrow> Some v | None \<Rightarrow> map_of raw ''kind'') of
        None \<Rightarrow>
          (None, Some (Errorf ''Payload does not contain a kind/Kind key at the top level''))
      | Some (JString kind) \<Rightarrow>
          (case resolve reg kind [] of
             Inl err \<Rightarrow> (None, Some err)
           | Inr e \<Rightarrow>
               (case coerce_fields (remaining raw) (entry_fields e) of
                  Inl err \<Rightarrow> (Some e, Some err)
                | Inr fs \<Rightarrow> (Some (TypedEntry (entry_kind e) fs), None)))
      | Some _ \<Rightarrow> (None, Some (Errorf ''Kind value in payload is not a string'')))"
  by (simp add: decodeConfigEntry_def spec_env_def spec_Decode_def
           split: option.split jvalue.split sum.split)

text \<open>
  C3, as amended: when the discriminator of the mapping (the value under \<open>Kind\<close>, or
  under \<open>kind\<close> when \<open>Kind\<close> is absent) is a string that names a registered kind, and
  the remaining keys coerce onto the fields of that kind, \<open>decodeConfigEntry\<close> succeeds
  with an entry of that kind in which every field holds the coerced value of the key
  matching its name, or its zero value when no key matches; when the coercion fails,
  \<open>decodeConfigEntry\<close> returns its error. A mapping that uses only \<open>kind\<close> decodes to
  the same result as the same mapping using \<open>Kind\<close>.
\<close>

theorem decodeConfigEntry_registered_kind:
  "((case map_of raw ''Kind'' of Some v \<Rightarrow> Some v | None \<Rightarrow> map_of raw ''kind'') =
        Some (JString kind)
      \<and> map_of reg kind = Some shape
      \<and> coerce_fields (remaining raw)
           ((''Name'', FString []) # map (\<lambda>(f, t). (f, zero t)) shape) = Inr fs
     \<longrightarrow> decodeConfigEntry (spec_env reg) raw = (Some (TypedEntry kind fs), None)
        \<and> list_all2
            (\<lambda>(f, t) (f', x). f' = f \<and>
               (case find (\<lambda>(k, v). EqualFold k f) (remaining raw) of
                  None \<Rightarrow> x = zero t
                | Some (k, v) \<Rightarrow> coerce_value k t v = Inr x))
            ((''Name'', TString) # shape) fs)
   \<and> ((case map_of raw ''Kind'' of Some v \<Rightarrow> Some v | None \<Rightarrow> map_of raw ''kind'') =
        Some (JString kind)
      \<and> map_of reg kind = Some shape
      \<and> coerce_fields (remaining raw)
           ((''Name'', FString []) # map (\<lambda>(f, t). (f, zero t)) shape) = Inl err
     \<longrightarrow> snd (decodeConfigEntry (spec_env reg) raw) = Some err)
   \<and> (map_of raw ''Kind'' = None \<longrightarrow>
        decodeConfigEntry (spec_env reg)
          (map (\<lambda>(k, x). (if k = ''kind'' then ''Kind'' else k, x)) raw) =
        decodeConfigEntry (spec_env reg) raw)"
proof (intro conjI impI)
  assume h: "(case map_of raw ''Kind'' of Some v \<Rightarrow> Some v | None \<Rightarrow> map_of raw ''kind'') =
        Some (JString kind)
      \<and> map_of reg kind = Some shape
      \<and> coerce_fields (remaining raw)
           ((''Name'', FString []) # map (\<lambda>(f, t). (f, zero t)) shape) = Inr fs"
  then show "decodeConfigEntry (spec_env reg) raw = (Some (TypedEntry kind fs), None)"
    by (simp add: decodeConfigEntry_spec_env resolve_def)
  from h have c: "coerce_fields (remaining raw)
      (map (\<lambda>(f, t). (f, zero t)) ((''Name'', TString) # shape)) = Inr fs"
    by simp
  show "list_all2
            (\<lambda>(f, t) (f', x). f' = f \<and>
               (case find (\<lambda>(k, v). EqualFold k f) (remaining raw) of
                  None \<Rightarrow> x = zero t
                | Some (k, v) \<Rightarrow> coerce_value k t v = Inr x))
            ((''Name'', TString) # shape) fs"
    using coerce_fields_fieldwise [OF c]
    unfolding list_all2_map1
    by (rule list_all2_mono) (auto simp: type_of_zero split: option.splits)
next
  assume "(case map_of raw ''Kind'' of Some v \<Rightarrow> Some v | None \<Rightarrow> map_of raw ''kind'') =
        Some (JString kind)
      \<and> map_of reg kind = Some shape
      \<and> coerce_fields (remaining raw)
           ((''Name'', FString []) # map (\<lambda>(f, t). (f, zero t)) shape) = Inl err"
  then show "snd (decodeConfigEntry (spec_env reg) raw) = Some err"
    by (simp add: decodeConfigEntry_spec_env resolve_def)
next
  assume "map_of raw ''Kind'' = None"
  then show "decodeConfigEntry (spec_env reg)
          (map (\<lambda>(k, x). (if k = ''kind'' then ''Kind'' else k, x)) raw) =
        decodeConfigEntry (spec_env reg) raw"
    by (simp only: decodeConfigEntry_spec_env rename_kind_same_discriminator
                   rename_kind_same_remaining)
qed

text \<open>
  C3, the claim as stated fails: the mapping has the string \<open>web\<close> under \<open>Kind\<close>, the
  registry knows the kind, and \<open>decodeConfigEntry\<close> fails, since the number 5 is no
  value for the field \<open>Name\<close>.
\<close>

theorem decodeConfigEntry_mismatch_counterexample:
  "map_of [(''Kind'', JString ''web''), (''Name'', JNumber 5)] ''Kind'' = Some (JString ''web'')
   \<and> resolve web_registry ''web'' [] =
       Inr (TypedEntry ''web''
              [(''Name'', FString []), (''Protocol'', FString []), (''Timeout'', FDuration 0)])
   \<and> decodeConfigEntry (spec_env web_registry)
         [(''Kind'', JString ''web''), (''Name'', JNumber 5)] =
       (Some (TypedEntry ''web''
                [(''Name'', FString []), (''Protocol'', FString []),
                 (''Timeout'', FDuration 0)]),
        Some (DecodeMismatch ''Name'' ''string'' ''number''))"
  by (simp add: decodeConfigEntry_def eval_defs)

text \<open>
  C3, the amended statement at a mapping that spells its keys in lower case, at the
  same mapping using \<open>Kind\<close>, and at a mapping whose \<open>Protocol\<close> is a boolean.
\<close>

theorem decodeConfigEntry_registered_kind_witness:
  "map_of [(''kind'', JString ''web''), (''name'', JString ''api''),
           (''timeout'', JString ''1h''), (''extra'', JNull)] ''Kind'' = None
   \<and> map_of [(''kind'', JString ''web''), (''name'', JString ''api''),
             (''timeout'', JString ''1h''), (''extra'', JNull)] ''kind'' = Some (JString ''web'')
   \<and> map_of web_registry ''web'' = Some [(''Protocol'', TString), (''Timeout'', TDuration)]
   \<and> decodeConfigEntry (spec_env web_registry)
         [(''kind'', JString ''web''), (''name'', JString ''api''),
          (''timeout'', JString ''1h''), (''extra'', JNull)] =
       (Some (TypedEntry ''web''
                [(''Name'', FString ''api''), (''Protocol'', FString []),
                 (''Timeout'', FDuration 3600000000000)]), None)
   \<and> decodeConfigEntry (spec_env web_registry)
         [(''Kind'', JString ''web''), (''name'', JString ''api''),
          (''timeout'', JString ''1h''), (''extra'', JNull)] =
       (Some (TypedEntry ''web''
                [(''Name'', FString ''api''), (''Protocol'', FString []),
                 (''Timeout'', FDuration 3600000000000)]), None)
   \<and> snd (decodeConfigEntry (spec_env web_registry)
         [(''Kind'', JString ''web''), (''Protocol'', JBool True)]) =
       Some (DecodeMismatch ''Protocol'' ''string'' ''bool'')"
proof -
  let ?raw = "[(''kind'', JString ''web''), (''name'', JString ''api''),
               (''timeout'', JString ''1h''), (''extra'', JNull)]"
  let ?bad = "[(''Kind'', JString ''web''), (''Protocol'', JBool True)]"
  let ?shape = "[(''Protocol'', TString), (''Timeout'', TDuration)]"
  let ?fs = "[(''Name'', FString ''api''), (''Protocol'', FString []),
              (''Timeout'', FDuration 3600000000000)]"
  have k: "map_of ?raw ''Kind'' = None" "map_of ?raw ''kind'' = Some (JString ''web'')"
    by simp_all
  have r: "map_of web_registry ''web'' = Some ?shape"
    by (simp add: web_registry_def)
  have c: "coerce_fields (remaining ?raw)
             ((''Name'', FString []) # map (\<lambda>(f, t). (f, zero t)) ?shape) = Inr ?fs"
    by (simp add: eval_defs)
  have kb: "map_of ?bad ''Kind'' = Some (JString ''web'')"
    by simp
  have cb: "coerce_fields (remaining ?bad)
             ((''Name'', FString []) # map (\<lambda>(f, t). (f, zero t)) ?shape) =
            Inl (DecodeMismatch ''Protocol'' ''string'' ''bool'')"
    by (simp add: eval_defs)
  from decodeConfigEntry_registered_kind
         [where raw = "?raw" and reg = web_registry and kind = "''web''" and shape = "?shape"
            and fs = "?fs"]
       decodeConfigEntry_registered_kind
         [where raw = "?bad" and reg = web_registry and kind = "''web''" and shape = "?shape"
            and err = "DecodeMismatch ''Protocol'' ''string'' ''bool''"]
       k r c kb cb
  show ?thesis by simp
qed

subsection \<open>Durations\<close>








subsection \<open>Malformed requests and the backend\<close>




subsection \<open>What decoding consults\<close>

text \<open>
  \<open>decodeConfigEntry\<close> consults the mapping, the kind registry and the decoder, and
  nothing else of its environment: two environments that agree on these three
  collaborators decode every mapping to the same result.
\<close>

lemma decodeConfigEntry_consults:
  assumes "MakeConfigEntry s = MakeConfigEntry s'"
      and "NewDecoder s = NewDecoder s'"
      and "Decode s = Decode s'"
  shows "decodeConfigEntry s raw = decodeConfigEntry s' raw"
  unfolding decodeConfigEntry_def assms ..

subsection \<open>The two decoders\<close>

text \<open>
  C10: on a body that the JSON decoder turns into a mapping, \<open>decodeConfigBody\<close>
  returns what \<open>decodeConfigEntry\<close> returns on that mapping; on a body that the JSON
  decoder rejects it returns the decoder's error; on a nil body it returns \<open>EOF\<close>,
  which is what it returns on an empty reader whenever the JSON decoder answers the
  empty reader with \<open>EOF\<close>.
\<close>

theorem decodeConfigBody_refines_decodeConfigEntry:
  "(Body req = Some body \<and> json_Decode s body = Inr raw \<longrightarrow>
      decodeConfigBody s req = decodeConfigEntry s raw)
   \<and> (Body req = Some body \<and> json_Decode s body = Inl err \<longrightarrow>
      decodeConfigBody s req = (None, Some err))
   \<and> (Body req = None \<longrightarrow> decodeConfigBody s req = (None, Some EOF))
   \<and> (json_Decode s [] = Inl EOF \<longrightarrow>
        decodeConfigBody s (req\<lparr>Body := None\<rparr>) = decodeConfigBody s (req\<lparr>Body := Some []\<rparr>))"
  by (simp add: decodeConfigBody_def decodeConfigEntry_def)

text \<open>
  C10 at a body holding a \<open>web\<close> entry, at the nil body and at the empty reader.
\<close>

theorem decodeConfigBody_refines_decodeConfigEntry_witness:
  "json_Decode
      ((spec_env web_registry)
         \<lparr>json_Decode := \<lambda>body. if body = [] then Inl EOF
                                else Inr [(''kind'', JString ''web''), (''Name'', JString ''api'')]\<rparr>)
      ''body'' =
     Inr [(''kind'', JString ''web''), (''Name'', JString ''api'')]
   \<and> decodeConfigBody
      ((spec_env web_registry)
         \<lparr>json_Decode := \<lambda>body. if body = [] then Inl EOF
                                else Inr [(''kind'', JString ''web''), (''Name'', JString ''api'')]\<rparr>)
      \<lparr>Method = ''PUT'', URL_Path = ''/v1/config'', Body = Some ''body''\<rparr> =
     (Some (TypedEntry ''web''
              [(''Name'', FString ''api''), (''Protocol'', FString []),
               (''Timeout'', FDuration 0)]), None)
   \<and> decodeConfigBody (spec_env web_registry)
        \<lparr>Method = ''PUT'', URL_Path = ''/v1/config'', Body = None\<rparr> = (None, Some EOF)
   \<and> decodeConfigBody (spec_env web_registry)
        \<lparr>Method = ''PUT'', URL_Path = ''/v1/config'', Body = Some []\<rparr> = (None, Some EOF)"
proof -
  let ?raw = "[(''kind'', JString ''web''), (''Name'', JString ''api'')]"
  let ?s = "(spec_env web_registry)
         \<lparr>json_Decode := \<lambda>body. if body = [] then Inl EOF else Inr ?raw\<rparr>"
  let ?req = "\<lparr>Method = ''PUT'', URL_Path = ''/v1/config'', Body = Some ''body''\<rparr>"
  let ?none = "\<lparr>Method = ''PUT'', URL_Path = ''/v1/config'', Body = None\<rparr>"
  have j: "json_Decode ?s ''body'' = Inr ?raw"
    by simp
  have e: "json_Decode (spec_env web_registry) [] = Inl EOF"
    by (simp add: spec_env_def)
  have d: "decodeConfigEntry ?s ?raw =
     (Some (TypedEntry ''web''
              [(''Name'', FString ''api''), (''Protocol'', FString []),
               (''Timeout'', FDuration 0)]), None)"
    by (simp add: decodeConfigEntry_def eval_defs)
  have a: "decodeConfigBody ?s ?req = decodeConfigEntry ?s ?raw"
    using decodeConfigBody_refines_decodeConfigEntry
            [where req = "?req" and s = "?s" and raw = "?raw" and body = "''body''"] j
    by simp
  have b: "decodeConfigBody (spec_env web_registry) ?none = (None, Some EOF)"
    using decodeConfigBody_refines_decodeConfigEntry
            [where req = "?none" and s = "spec_env web_registry"]
    by simp
  have c: "decodeConfigBody (spec_env web_registry) (?none\<lparr>Body := None\<rparr>) =
           decodeConfigBody (spec_env web_registry) (?none\<lparr>Body := Some []\<rparr>)"
    using decodeConfigBody_refines_decodeConfigEntry
            [where req = "?none" and s = "spec_env web_registry"] e
    by blast
  from a b c d j show ?thesis by simp
qed

end
